theory Spec2Isabelle
  imports Complex_Main "HOL-Library.Word"
begin

section \<open>Python strings\<close>

text \<open>
  A Python \<open>str\<close> is modelled as a \<open>string\<close>: each \<open>char\<close> stands for the code point
  of the same number, so the texts of this development are the texts over
  U+0000..U+00FF. On that range the functions below are the ones of CPython 3:
  \<open>str.isspace\<close>, \<open>str.lower\<close>, \<open>str.strip\<close>, \<open>str.find\<close>, the operator \<open>in\<close>,
  and the classes \<open>\d\<close> and \<open>\s\<close> of the module \<open>re\<close>.
\<close>

definition isspace :: "char \<Rightarrow> bool" where
  "isspace c =
     (let n = (of_char c :: nat)
      in (9 \<le> n \<and> n \<le> 13) \<or> (28 \<le> n \<and> n \<le> 32) \<or> n = 133 \<or> n = 160)"

definition isdigit :: "char \<Rightarrow> bool" where
  "isdigit c = (let n = (of_char c :: nat) in 48 \<le> n \<and> n \<le> 57)"

definition isupper :: "char \<Rightarrow> bool" where
  "isupper c =
     (let n = (of_char c :: nat)
      in (65 \<le> n \<and> n \<le> 90) \<or> (192 \<le> n \<and> n \<le> 222 \<and> n \<noteq> 215))"

definition lower_char :: "char \<Rightarrow> char" where
  "lower_char c = (if isupper c then char_of ((of_char c :: nat) + 32) else c)"

definition lower :: "string \<Rightarrow> string" where
  "lower s = map lower_char s"

definition strip :: "string \<Rightarrow> string" where
  "strip s = rev (dropWhile isspace (rev (dropWhile isspace s)))"

text \<open>\<open>startswith t s\<close> is \<open>t.startswith(s)\<close>.\<close>

fun startswith :: "string \<Rightarrow> string \<Rightarrow> bool" where
  "startswith t [] = True"
| "startswith [] (c # s) = False"
| "startswith (d # t) (c # s) = (d = c \<and> startswith t s)"

text \<open>
  \<open>find_from i t s\<close> scans \<open>t\<close>, whose first character has offset \<open>i\<close>, for the first
  occurrence of \<open>s\<close>; \<open>find_str t s\<close> is \<open>t.find(s)\<close>, with Python's \<open>-1\<close> when \<open>s\<close> does
  not occur, and \<open>contains t s\<close> is \<open>s in t\<close>.
\<close>

fun find_from :: "int \<Rightarrow> string \<Rightarrow> string \<Rightarrow> int" where
  "find_from i [] s = (if s = [] then i else - 1)"
| "find_from i (d # t) s = (if startswith (d # t) s then i else find_from (i + 1) t s)"

definition find_str :: "string \<Rightarrow> string \<Rightarrow> int" where
  "find_str t s = find_from 0 t s"

definition contains :: "string \<Rightarrow> string \<Rightarrow> bool" where
  "contains t s = (0 \<le> find_str t s)"

text \<open>
  \<open>py_int maxd s\<close> is \<open>int(s)\<close> on a string of decimal digits. \<open>maxd\<close> is the
  interpreter's \<open>sys.get_int_max_str_digits()\<close> (4300 unless configured, 0 for no limit):
  a longer string raises \<open>ValueError\<close>, which is \<open>None\<close> here.
\<close>

definition digit_val :: "char \<Rightarrow> nat" where
  "digit_val c = of_char c - 48"

definition digits_val :: "string \<Rightarrow> nat" where
  "digits_val s = foldl (\<lambda>a c. 10 * a + digit_val c) 0 s"

definition py_int :: "nat \<Rightarrow> string \<Rightarrow> int option" where
  "py_int maxd s = (if maxd \<noteq> 0 \<and> maxd < length s then None else Some (int (digits_val s)))"

section \<open>Regular expressions\<close>

text \<open>
  The patterns of the module repeat character classes only, so a pattern is built from
  a greedy repetition of a class (\<open>Rep p lo hi\<close>: at least \<open>lo\<close>, at most \<open>hi\<close> times),
  a literal, sequence, alternation, a capturing group and the anchor \<open>$\<close> (\<open>Eos\<close>: the
  end of the text, or the place before its final newline). \<open>ms r s\<close> lists the ways
  \<open>r\<close> matches a prefix of \<open>s\<close> in the order a backtracking matcher tries them
  (captured groups, matched prefix, rest), so that its head is the match \<open>re\<close> reports.
\<close>

datatype regex =
    Rep "char \<Rightarrow> bool" nat "nat option"
  | Lit string
  | Seq regex regex
  | Alt regex regex
  | Grp regex
  | Eos

type_synonym rmatch = "string list \<times> string \<times> string"

definition rep_counts :: "(char \<Rightarrow> bool) \<Rightarrow> nat \<Rightarrow> nat option \<Rightarrow> string \<Rightarrow> nat list" where
  "rep_counts p lo hi s =
     (let n = length (takeWhile p s);
          m = (case hi of None \<Rightarrow> n | Some h \<Rightarrow> min h n)
      in rev [lo..<Suc m])"

fun ms :: "regex \<Rightarrow> string \<Rightarrow> rmatch list" where
  "ms (Rep p lo hi) s = map (\<lambda>k. ([], take k s, drop k s)) (rep_counts p lo hi s)"
| "ms (Lit l) s = (if startswith s l then [([], l, drop (length l) s)] else [])"
| "ms (Seq a b) s =
     concat (map (\<lambda>(g1, m1, r1). map (\<lambda>(g2, m2, r2). (g1 @ g2, m1 @ m2, r2)) (ms b r1)) (ms a s))"
| "ms (Alt a b) s = ms a s @ ms b s"
| "ms (Grp a) s = map (\<lambda>(g, m, r). (g @ [m], m, r)) (ms a s)"
| "ms Eos s = (if s = [] \<or> s = [CHR 0x0A] then [([], [], s)] else [])"

text \<open>
  A reported match is the list of its groups, group 0 (the whole match) first.
  \<open>match_at\<close> is \<open>re.match\<close>, \<open>search\<close> is \<open>re.search\<close>: the first offset at which the
  pattern matches, the end of the text included.
\<close>

definition match_at :: "regex \<Rightarrow> string \<Rightarrow> string list option" where
  "match_at r s = (case ms r s of [] \<Rightarrow> None | (g, m, rest) # _ \<Rightarrow> Some (m # g))"

fun search :: "regex \<Rightarrow> string \<Rightarrow> string list option" where
  "search r [] = match_at r []"
| "search r (c # s) = (case match_at r (c # s) of Some g \<Rightarrow> Some g | None \<Rightarrow> search r s)"

text \<open>
  \<open>finditer\<close> scans from left to right and resumes behind each match, so matches do
  not overlap. After an empty match the scan moves on by one character (no pattern of
  the module matches the empty string). \<open>findall\<close> is \<open>re.findall\<close>: group 1 of each
  match when the pattern has a group, the whole match otherwise.
\<close>

fun finditer :: "regex \<Rightarrow> string \<Rightarrow> string list list" where
  "finditer r [] = (case match_at r [] of None \<Rightarrow> [] | Some g \<Rightarrow> [g])"
| "finditer r (c # s) =
     (case match_at r (c # s) of
        None \<Rightarrow> finditer r s
      | Some g \<Rightarrow> g # finditer r (drop (length (hd g) - 1) s))"

definition mgroup :: "nat \<Rightarrow> string list \<Rightarrow> string" where
  "mgroup i g = g ! i"

definition findall :: "regex \<Rightarrow> string \<Rightarrow> string list" where
  "findall r s = map (\<lambda>g. if length g = 1 then mgroup 0 g else mgroup 1 g) (finditer r s)"

section \<open>Experience in years\<close>

definition YEARS_EXP_RE :: regex where
  "YEARS_EXP_RE =
     Seq (Grp (Rep isdigit 1 None))
       (Seq (Rep (\<lambda>c. c = CHR ''+'') 0 (Some 1))
         (Seq (Rep isspace 0 None)
           (Alt (Lit ''years'') (Alt (Lit ''yrs'') (Lit ''year'')))))"

definition YEAR_RE :: regex where
  "YEAR_RE =
     Grp (Alt (Seq (Lit ''20'') (Rep isdigit 2 (Some 2)))
              (Seq (Lit ''19'') (Rep isdigit 2 (Some 2))))"

text \<open>
  The fallback of \<open>extract_experience_years\<close>: the years found by \<open>re.findall\<close>, as
  a sorted list without duplicates, and the span between its ends.
\<close>

definition regex_years :: "string \<Rightarrow> int list" where
  "regex_years text = map (\<lambda>y. int (digits_val y)) (findall YEAR_RE text)"

definition found_years :: "string \<Rightarrow> int list" where
  "found_years text = sort (remdups (regex_years text))"

definition years_span :: "string \<Rightarrow> int option" where
  "years_span text =
     (if findall YEAR_RE text \<noteq> [] then
        (let yrs = found_years text
         in if 2 \<le> length yrs then Some (last yrs - hd yrs) else None)
      else None)"

definition extract_experience_years :: "nat \<Rightarrow> string \<Rightarrow> int option" where
  "extract_experience_years maxd text =
     (case search YEARS_EXP_RE (lower text) of
        Some g \<Rightarrow>
          (case py_int maxd (mgroup 1 g) of
             Some n \<Rightarrow> Some n
           | None \<Rightarrow> years_span text)
      | None \<Rightarrow> years_span text)"




text \<open>\<open>occurs w s\<close>: the string \<open>w\<close> is a substring of \<open>s\<close>.\<close>

definition occurs :: "string \<Rightarrow> string \<Rightarrow> bool" where
  "occurs w s = (\<exists>pre post. s = pre @ w @ post)"

section \<open>Errors, the environment and the module state\<close>

text \<open>
  The exceptions that can leave the module. What the module reads from outside is
  the environment: the skills file as \<open>json.load\<close> delivers it, the file system,
  the extraction libraries, spaCy and the default scorer of rapidfuzz. The two
  module globals \<open>_nlp\<close> and \<open>_skills_master\<close> are the state, passed explicitly.
\<close>

datatype error =
    FileNotFoundError
  | IsADirectoryError
  | UnicodeDecodeError
  | JSONDecodeError
  | TypeError
  | AttributeError
  | ValueError

text \<open>A JSON value as Python holds it after \<open>json.load\<close>.\<close>

datatype json =
    JNull
  | JBool bool
  | JNum real
  | JStr string
  | JArr "json list"
  | JObj "(string \<times> json) list"

text \<open>
  The skills file \<open>DATA_DIR/SKILLS_FILE\<close>: absent (\<open>path.exists()\<close> is false),
  present but \<open>open\<close> or \<open>json.load\<close> raises, or present with a JSON value.
\<close>

datatype skills_file = Absent | Unreadable error | Parsed json

text \<open>
  A document is what the module reads from a spaCy \<open>Doc\<close>: the texts of its noun
  chunks (whose iteration raises when the pipeline has no parser) and its entities
  with their labels.
\<close>

record doc =
  noun_chunks :: "error + string list"
  ents :: "(string \<times> string) list"

type_synonym nlp = "string \<Rightarrow> doc"

type_synonym byte = "8 word"

text \<open>An unencoded Python string: its code points.\<close>

type_synonym ustr = "nat list"

datatype node = File "byte list" | Dir

record env =
  skills_file :: skills_file
  fs :: "string \<Rightarrow> node option"
  pdfplumber_pages :: "node \<Rightarrow> error + (error + ustr option) list"
  docx2txt_process :: "node \<Rightarrow> error + ustr option"
  spacy_load :: "nlp option"
  spacy_blank :: nlp
  token_sort_ratio :: "string \<Rightarrow> string \<Rightarrow> real"
  int_max_str_digits :: nat

record state =
  nlp_cache :: "nlp option"
  skills_master :: "string list option"

definition init_state :: state where
  "init_state = \<lparr>nlp_cache = None, skills_master = None\<rparr>"

definition get_nlp :: "env \<Rightarrow> state \<Rightarrow> nlp \<times> state" where
  "get_nlp e st =
     (case nlp_cache st of
        Some n \<Rightarrow> (n, st)
      | None \<Rightarrow>
          (let n = (case spacy_load e of Some m \<Rightarrow> m | None \<Rightarrow> spacy_blank e)
           in (n, st\<lparr>nlp_cache := Some n\<rparr>)))"

section \<open>The skills vocabulary\<close>

text \<open>
  A Python set is modelled as a list without duplicates; \<open>py_set\<close> builds one and
  \<open>set_add\<close> is \<open>set.add\<close>. The order in which CPython iterates a set is not
  specified; the list fixes one.
\<close>

definition py_set :: "'a list \<Rightarrow> 'a list" where
  "py_set xs = remdups xs"

definition set_add :: "'a \<Rightarrow> 'a list \<Rightarrow> 'a list" where
  "set_add x xs = (if x \<in> set xs then xs else xs @ [x])"

text \<open>Python's truth value of a JSON value (\<open>if s\<close>).\<close>

fun truthy :: "json \<Rightarrow> bool" where
  "truthy JNull = False"
| "truthy (JBool b) = b"
| "truthy (JNum x) = (x \<noteq> 0)"
| "truthy (JStr s) = (s \<noteq> [])"
| "truthy (JArr xs) = (xs \<noteq> [])"
| "truthy (JObj kvs) = (kvs \<noteq> [])"

text \<open>
  \<open>skills_of data\<close> is what the generator iterates: the keys of a mapping, the items of
  a list, the characters of a string; any other value is not iterable.
\<close>

fun skills_of :: "json \<Rightarrow> error + json list" where
  "skills_of (JObj kvs) = Inr (map JStr (remdups (map fst kvs)))"
| "skills_of (JArr xs) = Inr xs"
| "skills_of (JStr s) = Inr (map (\<lambda>c. JStr [c]) s)"
| "skills_of _ = Inl TypeError"

text \<open>
  The generator \<open>s.strip().lower() for s in skills if s\<close>: a false item is skipped, a
  true item that is no string has no \<open>strip\<close>.
\<close>

fun normalized_skills :: "json list \<Rightarrow> error + string list" where
  "normalized_skills [] = Inr []"
| "normalized_skills (x # xs) =
     (if truthy x then
        (case x of
           JStr s \<Rightarrow>
             (case normalized_skills xs of
                Inl e \<Rightarrow> Inl e
              | Inr r \<Rightarrow> Inr (lower (strip s) # r))
         | _ \<Rightarrow> Inl AttributeError)
      else normalized_skills xs)"

definition fallback_skills :: "string list" where
  "fallback_skills =
     [''python'', ''java'', ''c++'', ''sql'', ''django'', ''flask'', ''react'', ''node.js'',
      ''docker'', ''kubernetes'', ''aws'', ''git'', ''nlp'', ''tensorflow'', ''pytorch'']"

definition read_skills :: "skills_file \<Rightarrow> error + string list" where
  "read_skills f =
     (case f of
        Absent \<Rightarrow> Inr (py_set fallback_skills)
      | Unreadable e \<Rightarrow> Inl e
      | Parsed data \<Rightarrow>
          (case skills_of data of
             Inl e \<Rightarrow> Inl e
           | Inr skills \<Rightarrow>
               (case normalized_skills skills of
                  Inl e \<Rightarrow> Inl e
                | Inr r \<Rightarrow> Inr (py_set r))))"

definition load_skills_master :: "env \<Rightarrow> state \<Rightarrow> (error + string list) \<times> state" where
  "load_skills_master e st =
     (case skills_master st of
        Some v \<Rightarrow> (Inr v, st)
      | None \<Rightarrow>
          (case read_skills (skills_file e) of
             Inl err \<Rightarrow> (Inl err, st)
           | Inr v \<Rightarrow> (Inr v, st\<lparr>skills_master := Some v\<rparr>)))"

text \<open>The states the module reaches from its initial one.\<close>

inductive reachable :: "env \<Rightarrow> state \<Rightarrow> bool" for e :: env where
  reach_init: "reachable e init_state"
| reach_nlp: "reachable e st \<Longrightarrow> reachable e (snd (get_nlp e st))"
| reach_skills: "reachable e st \<Longrightarrow> reachable e (snd (load_skills_master e st))"

section \<open>Text extraction\<close>

text \<open>
  The UTF-8 decoder of CPython. It cuts the bytes into pieces: a well-formed sequence
  gives its code point, a range of bytes the decoder reports as undecodable is handed
  to the error handler, and decoding resumes behind it. \<open>utf8_head\<close> examines the head
  of a non-empty input and returns the piece and the number of bytes it covers.
\<close>

datatype piece = Decoded nat | Undecodable

definition is_cont :: "nat \<Rightarrow> bool" where
  "is_cont b = (128 \<le> b \<and> b < 192)"

text \<open>
  The second byte of a three-byte sequence must not give an overlong form or a
  surrogate, the second byte of a four-byte sequence neither an overlong form nor a
  code point above U+10FFFF.
\<close>

definition bad_second3 :: "nat \<Rightarrow> nat \<Rightarrow> bool" where
  "bad_second3 b0 b1 = (\<not> is_cont b1 \<or> (if b1 < 160 then b0 = 224 else b0 = 237))"

definition bad_second4 :: "nat \<Rightarrow> nat \<Rightarrow> bool" where
  "bad_second4 b0 b1 = (\<not> is_cont b1 \<or> (if b1 < 144 then b0 = 240 else b0 = 244))"

definition utf8_head :: "nat \<Rightarrow> nat list \<Rightarrow> piece \<times> nat" where
  "utf8_head b0 rest =
     (if b0 < 128 then (Decoded b0, 1)
      else if b0 < 194 then (Undecodable, 1)
      else if b0 < 224 then
        (case rest of
           [] \<Rightarrow> (Undecodable, 1)
         | b1 # _ \<Rightarrow>
             if is_cont b1 then (Decoded ((b0 - 192) * 64 + (b1 - 128)), 2)
             else (Undecodable, 1))
      else if b0 < 240 then
        (case rest of
           [] \<Rightarrow> (Undecodable, 1)
         | [b1] \<Rightarrow> if bad_second3 b0 b1 then (Undecodable, 1) else (Undecodable, 2)
         | b1 # b2 # _ \<Rightarrow>
             if bad_second3 b0 b1 then (Undecodable, 1)
             else if \<not> is_cont b2 then (Undecodable, 2)
             else (Decoded ((b0 - 224) * 4096 + (b1 - 128) * 64 + (b2 - 128)), 3))
      else if b0 < 245 then
        (case rest of
           [] \<Rightarrow> (Undecodable, 1)
         | [b1] \<Rightarrow> if bad_second4 b0 b1 then (Undecodable, 1) else (Undecodable, 2)
         | [b1, b2] \<Rightarrow>
             if bad_second4 b0 b1 then (Undecodable, 1)
             else if \<not> is_cont b2 then (Undecodable, 2)
             else (Undecodable, 3)
         | b1 # b2 # b3 # _ \<Rightarrow>
             if bad_second4 b0 b1 then (Undecodable, 1)
             else if \<not> is_cont b2 then (Undecodable, 2)
             else if \<not> is_cont b3 then (Undecodable, 3)
             else (Decoded ((b0 - 240) * 262144 + (b1 - 128) * 4096
                            + (b2 - 128) * 64 + (b3 - 128)), 4))
      else (Undecodable, 1))"

fun utf8_pieces :: "nat list \<Rightarrow> piece list" where
  "utf8_pieces [] = []"
| "utf8_pieces (b0 # rest) =
     (case utf8_head b0 rest of (p, n) \<Rightarrow> p # utf8_pieces (drop (n - 1) rest))"

text \<open>
  The error handlers \<open>errors="strict"\<close>, \<open>"ignore"\<close> and \<open>"replace"\<close>: raise, leave the
  undecodable range out, put U+FFFD in its place.
\<close>

datatype errors = Strict | Ignore | Replace

fun handle_errors :: "errors \<Rightarrow> piece list \<Rightarrow> error + ustr" where
  "handle_errors h [] = Inr []"
| "handle_errors h (Decoded c # ps) =
     (case handle_errors h ps of Inl e \<Rightarrow> Inl e | Inr t \<Rightarrow> Inr (c # t))"
| "handle_errors h (Undecodable # ps) =
     (case h of
        Strict \<Rightarrow> Inl UnicodeDecodeError
      | Ignore \<Rightarrow> handle_errors h ps
      | Replace \<Rightarrow>
          (case handle_errors h ps of Inl e \<Rightarrow> Inl e | Inr t \<Rightarrow> Inr (65533 # t)))"

definition utf8_decode :: "errors \<Rightarrow> byte list \<Rightarrow> error + ustr" where
  "utf8_decode h bs = handle_errors h (utf8_pieces (map unat bs))"

text \<open>
  Text mode with \<open>newline=None\<close> translates \<open>\r\n\<close> and a lone \<open>\r\<close> to \<open>\n\<close>;
  \<open>read_text h bs\<close> is \<open>Path.read_text(encoding="utf-8", errors=h)\<close> on a file with the
  bytes \<open>bs\<close>.
\<close>

fun universal_newlines :: "ustr \<Rightarrow> ustr" where
  "universal_newlines [] = []"
| "universal_newlines [c] = [if c = 13 then 10 else c]"
| "universal_newlines (c # d # t) =
     (if c = 13 \<and> d = 10 then 10 # universal_newlines t
      else if c = 13 then 10 # universal_newlines (d # t)
      else c # universal_newlines (d # t))"

definition read_text :: "errors \<Rightarrow> node \<Rightarrow> error + ustr" where
  "read_text h n =
     (case n of
        Dir \<Rightarrow> Inl IsADirectoryError
      | File bs \<Rightarrow>
          (case utf8_decode h bs of Inl e \<Rightarrow> Inl e | Inr t \<Rightarrow> Inr (universal_newlines t)))"

text \<open>
  \<open>Path(path).suffix\<close> on a POSIX path: the name is the last component that is neither
  empty nor \<open>.\<close>, and the suffix starts at the last dot of the name unless that dot is
  the first or the last character of the name.
\<close>

fun split_on :: "char \<Rightarrow> string \<Rightarrow> string list" where
  "split_on sep [] = [[]]"
| "split_on sep (c # s) =
     (case split_on sep s of
        [] \<Rightarrow> (if c = sep then [[], []] else [[c]])
      | w # ws \<Rightarrow> (if c = sep then [] # w # ws else (c # w) # ws))"

definition path_name :: "string \<Rightarrow> string" where
  "path_name p =
     (case filter (\<lambda>c. c \<noteq> [] \<and> c \<noteq> ''.'') (split_on (CHR ''/'') p) of
        [] \<Rightarrow> []
      | c # cs \<Rightarrow> last (c # cs))"

text \<open>\<open>rfind_char c s\<close> is \<open>s.rfind(c)\<close> for a character \<open>c\<close>.\<close>

definition rfind_char :: "char \<Rightarrow> string \<Rightarrow> int" where
  "rfind_char c s =
     (case filter (\<lambda>i. s ! i = c) (rev [0..<length s]) of [] \<Rightarrow> - 1 | i # _ \<Rightarrow> int i)"

definition path_suffix :: "string \<Rightarrow> string" where
  "path_suffix p =
     (let name = path_name p; i = rfind_char (CHR ''.'') name
      in if 0 < i \<and> i < int (length name) - 1 then drop (nat i) name else [])"

text \<open>\<open>join sep xs\<close> is \<open>sep.join(xs)\<close>.\<close>

fun join :: "'a list \<Rightarrow> 'a list list \<Rightarrow> 'a list" where
  "join sep [] = []"
| "join sep [x] = x"
| "join sep (x # y # ys) = x @ sep @ join sep (y # ys)"

text \<open>
  \<open>extract_text_from_pdf\<close>: the texts of the pages that have one, joined by newlines.
  An exception of the library ends the loop and keeps the chunks collected so far.
\<close>

fun pdf_chunks :: "(error + ustr option) list \<Rightarrow> ustr list" where
  "pdf_chunks [] = []"
| "pdf_chunks (Inl e # ps) = []"
| "pdf_chunks (Inr None # ps) = pdf_chunks ps"
| "pdf_chunks (Inr (Some t) # ps) = (if t \<noteq> [] then t # pdf_chunks ps else pdf_chunks ps)"

definition extract_text_from_pdf :: "env \<Rightarrow> node \<Rightarrow> ustr" where
  "extract_text_from_pdf e n =
     join [10] (case pdfplumber_pages e n of Inl err \<Rightarrow> [] | Inr pages \<Rightarrow> pdf_chunks pages)"

definition extract_text_from_docx :: "env \<Rightarrow> node \<Rightarrow> ustr" where
  "extract_text_from_docx e n =
     (case docx2txt_process e n of
        Inl err \<Rightarrow> []
      | Inr None \<Rightarrow> []
      | Inr (Some t) \<Rightarrow> t)"

definition extract_text :: "env \<Rightarrow> string \<Rightarrow> error + ustr" where
  "extract_text e path =
     (case fs e path of
        None \<Rightarrow> Inl FileNotFoundError
      | Some n \<Rightarrow>
          (let suffix = lower (path_suffix path)
           in if suffix = ''.pdf'' then Inr (extract_text_from_pdf e n)
              else if suffix \<in> set [''.docx'', ''.doc''] then Inr (extract_text_from_docx e n)
              else read_text Ignore n))"

section \<open>Contact information\<close>

definition isalnum_ascii :: "char \<Rightarrow> bool" where
  "isalnum_ascii c =
     (let n = (of_char c :: nat)
      in (97 \<le> n \<and> n \<le> 122) \<or> (65 \<le> n \<and> n \<le> 90) \<or> (48 \<le> n \<and> n \<le> 57))"

definition isalpha_ascii :: "char \<Rightarrow> bool" where
  "isalpha_ascii c =
     (let n = (of_char c :: nat) in (97 \<le> n \<and> n \<le> 122) \<or> (65 \<le> n \<and> n \<le> 90))"

text \<open>The class \<open>[\d\-\s()]\<close> of the phone pattern.\<close>

definition phone_sep :: "char \<Rightarrow> bool" where
  "phone_sep c = (isdigit c \<or> c = CHR ''-'' \<or> isspace c \<or> c = CHR ''('' \<or> c = CHR '')'')"

definition PHONE_RE :: regex where
  "PHONE_RE =
     Grp (Seq (Rep (\<lambda>c. c = CHR ''+'') 0 (Some 1))
           (Seq (Rep isdigit 1 (Some 1))
             (Seq (Rep phone_sep 7 None) (Rep isdigit 1 (Some 1)))))"

definition EMAIL_RE :: regex where
  "EMAIL_RE =
     Seq (Rep (\<lambda>c. isalnum_ascii c \<or> c \<in> set ''_.+-'') 1 None)
       (Seq (Lit ''@'')
         (Seq (Rep (\<lambda>c. isalnum_ascii c \<or> c = CHR ''-'') 1 None)
           (Seq (Lit ''.'') (Rep (\<lambda>c. isalnum_ascii c \<or> c \<in> set ''-.'') 1 None))))"

record contact =
  phone :: "string option"
  email :: "string option"

definition extract_contact_info :: "string \<Rightarrow> contact" where
  "extract_contact_info text =
     (let phones = findall PHONE_RE text;
          emails = findall EMAIL_RE text
      in \<lparr>phone = (case phones of [] \<Rightarrow> None | p # _ \<Rightarrow> Some p),
          email = (case emails of [] \<Rightarrow> None | m # _ \<Rightarrow> Some m)\<rparr>)"

text \<open>The number of decimal digits in a string.\<close>

definition count_digits :: "string \<Rightarrow> nat" where
  "count_digits s = length (filter isdigit s)"

section \<open>The name\<close>

text \<open>
  \<open>splitlines\<close> is \<open>str.splitlines()\<close>, \<open>split_ws\<close> is \<open>str.split()\<close>. A line ends at
  \<open>\n\<close>, \<open>\r\<close>, \<open>\r\n\<close>, \<open>\v\<close>, \<open>\f\<close>, \<open>\x1c\<close>, \<open>\x1d\<close>, \<open>\x1e\<close> or \<open>\x85\<close>.
\<close>

definition is_linebreak :: "char \<Rightarrow> bool" where
  "is_linebreak c =
     (let n = (of_char c :: nat) in (10 \<le> n \<and> n \<le> 13) \<or> (28 \<le> n \<and> n \<le> 30) \<or> n = 133)"

fun splitlines_from :: "string \<Rightarrow> string \<Rightarrow> string list" where
  "splitlines_from cur [] = (if cur = [] then [] else [rev cur])"
| "splitlines_from cur [c] = (if is_linebreak c then [rev cur] else [rev (c # cur)])"
| "splitlines_from cur (c # d # s) =
     (if c = CHR 0x0D \<and> d = CHR 0x0A then rev cur # splitlines_from [] s
      else if is_linebreak c then rev cur # splitlines_from [] (d # s)
      else splitlines_from (c # cur) (d # s))"

definition splitlines :: "string \<Rightarrow> string list" where
  "splitlines s = splitlines_from [] s"

fun split_ws_from :: "string \<Rightarrow> string \<Rightarrow> string list" where
  "split_ws_from cur [] = (if cur = [] then [] else [rev cur])"
| "split_ws_from cur (c # s) =
     (if isspace c then (if cur = [] then split_ws_from [] s else rev cur # split_ws_from [] s)
      else split_ws_from (c # cur) s)"

definition split_ws :: "string \<Rightarrow> string list" where
  "split_ws s = split_ws_from [] s"

definition NAME_RE :: regex where
  "NAME_RE = Seq (Rep (\<lambda>c. isalpha_ascii c \<or> c \<in> set '' .'' \<or> c = CHR 0x27 \<or> c = CHR ''-'') 1 None) Eos"

definition extract_name :: "env \<Rightarrow> string \<Rightarrow> state \<Rightarrow> string option \<times> state" where
  "extract_name e text st =
     (case get_nlp e st of
        (nlp, st') \<Rightarrow>
          (let d = nlp (take 2000 text)
           in case filter (\<lambda>ent. snd ent = ''PERSON'') (ents d) of
                ent # _ \<Rightarrow> (Some (strip (fst ent)), st')
              | [] \<Rightarrow>
                  (let first_lines = filter (\<lambda>l. l \<noteq> []) (map strip (splitlines text))
                   in case first_lines of
                        [] \<Rightarrow> (None, st')
                      | candidate # _ \<Rightarrow>
                          if length (split_ws candidate) \<le> 4
                             \<and> match_at NAME_RE candidate \<noteq> None
                          then (Some candidate, st')
                          else (None, st'))))"

section \<open>Skills\<close>

text \<open>
  \<open>process.extractOne(query, choices, scorer=scorer)\<close> of rapidfuzz: the first choice
  with the highest score, and that score; nothing when there is no choice.
\<close>

fun extractOne_from ::
  "(string \<times> real) option \<Rightarrow> (string \<Rightarrow> string \<Rightarrow> real) \<Rightarrow> string \<Rightarrow> string list
     \<Rightarrow> (string \<times> real) option" where
  "extractOne_from best scorer query [] = best"
| "extractOne_from best scorer query (c # cs) =
     (let score = scorer query c
      in case best of
           None \<Rightarrow> extractOne_from (Some (c, score)) scorer query cs
         | Some (b, bs) \<Rightarrow>
             if bs < score then extractOne_from (Some (c, score)) scorer query cs
             else extractOne_from best scorer query cs)"

definition extractOne ::
  "(string \<Rightarrow> string \<Rightarrow> real) \<Rightarrow> string \<Rightarrow> string list \<Rightarrow> (string \<times> real) option" where
  "extractOne scorer query choices = extractOne_from None scorer query choices"

text \<open>The pattern \<open>[a-zA-Z#+.\-]{2,}\<close> of the candidate tokens.\<close>

definition TOKEN_RE :: regex where
  "TOKEN_RE = Rep (\<lambda>c. isalpha_ascii c \<or> c \<in> set ''#+.-'') 2 None"

text \<open>
  The candidate phrases: noun chunks of 2 to 50 characters, all entities, and the
  tokens of at most 40 characters, each stripped and lower-cased.
\<close>

definition candidates_of :: "string list \<Rightarrow> doc \<Rightarrow> string \<Rightarrow> string list" where
  "candidates_of chunks d text_low =
     py_set
       (filter (\<lambda>c. 2 \<le> length c \<and> length c \<le> 50) (map (\<lambda>c. lower (strip c)) chunks)
        @ map (\<lambda>ent. lower (strip (fst ent))) (ents d)
        @ filter (\<lambda>t. length t \<le> 40) (findall TOKEN_RE text_low))"

text \<open>The loop that adds to \<open>found\<close> the best match of each candidate scoring at least 80.\<close>

fun fuzzy_pass ::
  "(string \<Rightarrow> string \<Rightarrow> real) \<Rightarrow> string list \<Rightarrow> string list \<Rightarrow> string list \<Rightarrow> string list" where
  "fuzzy_pass scorer choices [] found = found"
| "fuzzy_pass scorer choices (cand # cands) found =
     (case extractOne scorer cand choices of
        None \<Rightarrow> fuzzy_pass scorer choices cands found
      | Some (m, score) \<Rightarrow>
          if 80 \<le> score then fuzzy_pass scorer choices cands (set_add m found)
          else fuzzy_pass scorer choices cands found)"

text \<open>
  \<open>extract_skills\<close>; its parameter \<open>top_k\<close> is not used by the source and left out.
  \<open>sort_key\<close> is a stable sort, as Python's \<open>sorted\<close>.
\<close>

definition extract_skills ::
  "env \<Rightarrow> (string \<Rightarrow> string \<Rightarrow> real) \<Rightarrow> string \<Rightarrow> state \<Rightarrow> (error + string list) \<times> state" where
  "extract_skills e scorer text st =
     (case load_skills_master e st of
        (Inl err, st1) \<Rightarrow> (Inl err, st1)
      | (Inr master, st1) \<Rightarrow>
          (let text_low = lower text;
               found = py_set (filter (\<lambda>s. contains text_low s) master)
           in case get_nlp e st1 of
                (nlp, st2) \<Rightarrow>
                  (let d = nlp (take 100000 text)
                   in case noun_chunks d of
                        Inl err \<Rightarrow> (Inl err, st2)
                      | Inr chunks \<Rightarrow>
                          (let candidates = candidates_of chunks d text_low;
                               choices = master;
                               found' = fuzzy_pass scorer choices candidates found
                           in (Inr (sort_key (\<lambda>s. find_str text_low s) found'), st2)))))"

section \<open>Education\<close>

definition degrees :: "string list" where
  "degrees = [''bachelor'', ''b.sc'', ''b.e'', ''b.tech'', ''master'', ''m.sc'', ''m.tech'',
              ''m.e'', ''mca'', ''phd'', ''ph.d'']"

definition extract_education :: "string \<Rightarrow> string list" where
  "extract_education text = (let low = lower text in filter (\<lambda>d. contains low d) degrees)"

section \<open>The profile\<close>

text \<open>
  The profile dictionary. It extends the record of the contact information, as the
  source adds the keys \<open>phone\<close> and \<open>email\<close> by \<open>profile.update\<close>.
\<close>

record profile = contact +
  raw_text :: ustr
  name :: "string option"
  experience_years :: "int option"
  skills :: "string list"
  education :: "string list"

text \<open>
  The extractors work on texts over U+0000..U+00FF; \<open>str_of\<close> hands them the text that
  \<open>extract_text\<close> returned when all its code points lie in that range. A text with a
  code point above U+00FF is not modelled: \<open>str_of\<close> gives \<open>None\<close> for it, and so does
  \<open>parse_resume\<close>, which then says nothing about what the source does.
\<close>

definition str_of :: "ustr \<Rightarrow> string option" where
  "str_of t = (if list_all (\<lambda>c. c < 256) t then Some (map char_of t) else None)"

definition parse_resume ::
  "env \<Rightarrow> string \<Rightarrow> state \<Rightarrow> ((error + profile) \<times> state) option" where
  "parse_resume e path st =
     (case extract_text e path of
        Inl err \<Rightarrow> Some (Inl err, st)
      | Inr raw \<Rightarrow>
          (case str_of raw of
             None \<Rightarrow> None
           | Some text \<Rightarrow>
               (case extract_name e text st of
                  (nm, st1) \<Rightarrow>
                    (let c = extract_contact_info text;
                         years = extract_experience_years (int_max_str_digits e) text
                     in case extract_skills e (token_sort_ratio e) text st1 of
                          (Inl err, st2) \<Rightarrow> Some (Inl err, st2)
                        | (Inr sk, st2) \<Rightarrow>
                            Some (Inr \<lparr>phone = phone c, email = email c, raw_text = raw,
                                       name = nm, experience_years = years, skills = sk,
                                       education = extract_education text\<rparr>, st2)))))"

section \<open>Example environments\<close>

text \<open>
  Environments for concrete runs: no skills file, spaCy's model installed and finding
  nothing, a scorer that gives 100 to equal strings and 0 otherwise, and a file system
  given by its files.
\<close>

definition quiet_nlp :: nlp where
  "quiet_nlp t = \<lparr>noun_chunks = Inr [], ents = []\<rparr>"

definition exact_scorer :: "string \<Rightarrow> string \<Rightarrow> real" where
  "exact_scorer a b = (if a = b then 100 else 0)"

definition example_env :: "skills_file \<Rightarrow> (string \<times> node) list \<Rightarrow> env" where
  "example_env sf files =
     \<lparr>skills_file = sf, fs = map_of files,
      pdfplumber_pages = (\<lambda>n. Inl ValueError), docx2txt_process = (\<lambda>n. Inl ValueError),
      spacy_load = Some quiet_nlp, spacy_blank = quiet_nlp,
      token_sort_ratio = exact_scorer, int_max_str_digits = 4300\<rparr>"

text \<open>The bytes of a text of ASCII characters.\<close>

definition ascii_bytes :: "string \<Rightarrow> byte list" where
  "ascii_bytes s = map of_char s"

text \<open>
  What holds of the cached vocabulary in every state the module reaches: no entry
  twice and every entry lower-cased.
\<close>

definition vocab_ok :: "string list \<Rightarrow> bool" where
  "vocab_ok v = (distinct v \<and> list_all (\<lambda>s. lower s = s) v)"

text \<open>A scorer that also accepts one misspelling, to run the fuzzy pass.\<close>

definition typo_scorer :: "string \<Rightarrow> string \<Rightarrow> real" where
  "typo_scorer a b =
     (if a = b then 100 else if a = ''pyhton'' \<and> b = ''python'' then 90 else 0)"



section \<open>Rules for running the definitions\<close>

text \<open>
  The defining equations that the simplifier unfolds to run the model on a concrete
  input.
\<close>

lemmas eval_defs = extract_skills_def load_skills_master_def read_skills_def fallback_skills_def
  py_set_def set_add_def get_nlp_def candidates_of_def TOKEN_RE_def findall_def match_at_def
  mgroup_def rep_counts_def lower_def lower_char_def isupper_def isalpha_ascii_def contains_def
  find_str_def extractOne_def example_env_def quiet_nlp_def exact_scorer_def init_state_def
  typo_scorer_def strip_def isspace_def char_of_def bit_Suc_0_iff

lemmas eval_re = extract_contact_info_def PHONE_RE_def EMAIL_RE_def findall_def match_at_def
  mgroup_def rep_counts_def isdigit_def isspace_def phone_sep_def isalnum_ascii_def
  count_digits_def

lemmas eval_text = extract_text_def read_text_def path_suffix_def path_name_def rfind_char_def
  lower_def lower_char_def isupper_def utf8_decode_def utf8_head_def is_cont_def bad_second3_def
  bad_second4_def example_env_def char_of_def bit_Suc_0_iff

lemmas eval_parse = parse_resume_def extract_name_def splitlines_def split_ws_def NAME_RE_def
  is_linebreak_def str_of_def ascii_bytes_def extract_education_def degrees_def
  extract_experience_years_def years_span_def regex_years_def found_years_def YEARS_EXP_RE_def
  YEAR_RE_def py_int_def digits_val_def digit_val_def normalized_skills.simps

section \<open>Facts on strings\<close>

lemma startswith_iff: "startswith t s \<longleftrightarrow> take (length s) t = s"
  by (induction t s rule: startswith.induct) auto

lemma startswith_append: "startswith t s \<longleftrightarrow> (\<exists>r. t = s @ r)"
  unfolding startswith_iff
  by (metis append_eq_conv_conj append_take_drop_id)

lemma find_from_none:
  "find_from i t s = - 1 \<Longrightarrow> 0 \<le> i \<Longrightarrow> k \<le> length t \<Longrightarrow> \<not> startswith (drop k t) s"
proof (induction i t s arbitrary: k rule: find_from.induct)
  case (1 i s)
  then show ?case by (cases s) (auto split: if_splits)
next
  case (2 i d t s)
  show ?case
  proof (cases k)
    case 0
    with 2 show ?thesis by (auto split: if_splits)
  next
    case (Suc j)
    with 2 show ?thesis by (auto split: if_splits)
  qed
qed

lemma find_from_range: "0 \<le> i \<Longrightarrow> find_from i t s = - 1 \<or> (i \<le> find_from i t s \<and> find_from i t s \<le> i + int (length t))"
  by (induction i t s rule: find_from.induct) auto

lemma find_from_some:
  "find_from i t s = i + int k \<Longrightarrow> 0 \<le> i \<Longrightarrow>
     k \<le> length t \<and> startswith (drop k t) s \<and> (\<forall>j<k. \<not> startswith (drop j t) s)"
proof (induction i t s arbitrary: k rule: find_from.induct)
  case (1 i s)
  then show ?case by (auto split: if_splits)
next
  case (2 i d t s)
  show ?case
  proof (cases "startswith (d # t) s")
    case True
    with 2 show ?thesis by auto
  next
    case False
    with 2 have eq: "find_from (i + 1) t s = i + int k" by simp
    from find_from_range[of "i + 1" t s] 2(3) eq have "k \<noteq> 0" by auto
    then obtain j where k: "k = Suc j" by (cases k) auto
    with eq have "find_from (i + 1) t s = (i + 1) + int j" by simp
    from 2(1)[OF False this] 2(3)
    have "j \<le> length t \<and> startswith (drop j t) s \<and> (\<forall>l<j. \<not> startswith (drop l t) s)" by simp
    with False k show ?thesis by (auto simp: less_Suc_eq_0_disj)
  qed
qed

lemma contains_iff: "contains t s \<longleftrightarrow> (\<exists>pre post. t = pre @ s @ post)"
proof
  assume "contains t s"
  then have nn: "0 \<le> find_str t s" by (simp add: contains_def)
  define k where "k = nat (find_str t s)"
  with nn have "find_from 0 t s = 0 + int k" by (simp add: find_str_def)
  from find_from_some[OF this] have "k \<le> length t" "startswith (drop k t) s" by auto
  then obtain r where "drop k t = s @ r" by (auto simp: startswith_append)
  then have "t = take k t @ s @ r" by (metis append_take_drop_id)
  then show "\<exists>pre post. t = pre @ s @ post" by blast
next
  assume "\<exists>pre post. t = pre @ s @ post"
  then obtain pre post where t: "t = pre @ s @ post" by blast
  show "contains t s"
  proof (rule ccontr)
    assume "\<not> contains t s"
    with find_from_range[of 0 t s] have "find_from 0 t s = - 1"
      by (auto simp: contains_def find_str_def)
    from find_from_none[OF this, of "length pre"] t show False
      by (auto simp: startswith_append)
  qed
qed


section \<open>Facts on the experience heuristics\<close>

lemma sorted_distinct_hd_less_last:
  fixes xs :: "int list"
  assumes "sorted xs" "distinct xs" "2 \<le> length xs"
  shows "hd xs < last xs"
proof -
  from assms(3) obtain a b ys where xs: "xs = a # b # ys"
    by (cases xs; cases "tl xs") auto
  have "last xs \<in> set (b # ys)" using xs by auto
  with assms(1,2) xs have "a \<le> last xs" "a \<noteq> last xs" by auto
  with xs show ?thesis by simp
qed

lemma years_span_pos: "years_span text = Some v \<Longrightarrow> 1 \<le> v"
  using sorted_distinct_hd_less_last[of "found_years text"]
  by (auto simp: years_span_def Let_def found_years_def split: if_splits)
















lemma contains_occurs: "contains t s \<longleftrightarrow> occurs s t"
  by (simp add: contains_iff occurs_def)






text \<open>
  Claim C9. A value that \<open>extract_experience_years\<close> returns through the fallback
  (the primary pattern did not match) is at least 1.
\<close>
theorem experience_years_fallback_positive:
  "search YEARS_EXP_RE (lower text) = None \<Longrightarrow>
   extract_experience_years maxd text = Some v \<Longrightarrow> 1 \<le> v"
  using years_span_pos[of "text" v] by (simp add: extract_experience_years_def)

text \<open>The theorem at a text with the years 1999 and 2004.\<close>

theorem experience_years_fallback_positive_witness:
  "search YEARS_EXP_RE (lower ''Intern 1999, engineer since 2004'') = None
   \<and> extract_experience_years 4300 ''Intern 1999, engineer since 2004'' = Some 5
   \<and> (1::int) \<le> 5"
proof -
  have h1: "search YEARS_EXP_RE (lower ''Intern 1999, engineer since 2004'') = None" by code_simp
  have h2: "extract_experience_years 4300 ''Intern 1999, engineer since 2004'' = Some 5" by code_simp
  from experience_years_fallback_positive[OF h1 h2] h1 h2 show ?thesis by simp
qed

section \<open>Facts on the vocabulary and the skill matcher\<close>

lemma lower_char_idem: "lower_char (lower_char c) = lower_char c"
proof (cases "isupper c")
  case False
  then show ?thesis by (simp add: lower_char_def)
next
  case True
  let ?n = "of_char c :: nat"
  have lt: "?n + 32 < 256" using True by (auto simp: isupper_def Let_def)
  have "of_char (char_of (?n + 32)) = (?n + 32) mod 256" by (rule of_char_of)
  with lt have "(of_char (char_of (?n + 32)) :: nat) = ?n + 32" by simp
  with True have "\<not> isupper (char_of (?n + 32))" by (auto simp: isupper_def Let_def)
  with True show ?thesis by (simp add: lower_char_def)
qed

lemma lower_idem: "lower (lower s) = lower s"
  by (simp add: lower_def lower_char_idem)

lemma normalized_skills_lower:
  "normalized_skills xs = Inr r \<Longrightarrow> list_all (\<lambda>s. lower s = s) r"
proof (induction xs arbitrary: r)
  case Nil
  then show ?case by simp
next
  case (Cons x xs)
  then show ?case
    by (cases x) (auto simp: lower_idem split: if_splits sum.splits)
qed

lemma fallback_skills_ok: "vocab_ok (py_set fallback_skills)"
  by (simp add: vocab_ok_def py_set_def fallback_skills_def lower_def lower_char_def isupper_def)

lemma read_skills_ok: "read_skills f = Inr v \<Longrightarrow> vocab_ok v"
proof (cases f)
  case Absent
  then show "read_skills f = Inr v \<Longrightarrow> vocab_ok v" using fallback_skills_ok by (auto simp: read_skills_def)
next
  case (Unreadable e)
  then show "read_skills f = Inr v \<Longrightarrow> vocab_ok v" by (simp add: read_skills_def)
next
  case (Parsed data)
  assume "read_skills f = Inr v"
  with Parsed obtain skills r where "normalized_skills skills = Inr r" "v = py_set r"
    by (auto simp: read_skills_def split: sum.splits)
  with normalized_skills_lower[of skills r] show "vocab_ok v"
    by (auto simp: vocab_ok_def py_set_def list_all_iff)
qed

lemma reachable_vocab_ok: "reachable e st \<Longrightarrow> skills_master st = Some v \<Longrightarrow> vocab_ok v"
proof (induction arbitrary: v rule: reachable.induct)
  case reach_init
  then show ?case by (simp add: init_state_def)
next
  case (reach_nlp st)
  then show ?case by (auto simp: get_nlp_def Let_def split: option.splits)
next
  case (reach_skills st)
  then show ?case
    by (auto simp: load_skills_master_def split: option.splits sum.splits dest: read_skills_ok)
qed

lemma load_skills_master_ok:
  "reachable e st \<Longrightarrow> load_skills_master e st = (Inr v, st') \<Longrightarrow> vocab_ok v"
  by (auto simp: load_skills_master_def split: option.splits sum.splits
      dest: read_skills_ok reachable_vocab_ok)

lemma extractOne_from_mem:
  "extractOne_from best scorer q cs = Some (m, sc) \<Longrightarrow> best = Some (m, sc) \<or> m \<in> set cs"
proof (induction cs arbitrary: best)
  case Nil
  then show ?case by simp
next
  case (Cons c cs)
  then show ?case
    by (cases best) (fastforce simp: Let_def split: if_splits)+
qed

lemma extractOne_mem: "extractOne scorer q cs = Some (m, sc) \<Longrightarrow> m \<in> set cs"
  using extractOne_from_mem[of None scorer q cs m sc] by (simp add: extractOne_def)

lemma set_add_set: "set (set_add x xs) = insert x (set xs)"
  by (auto simp: set_add_def)

lemma set_add_distinct: "distinct xs \<Longrightarrow> distinct (set_add x xs)"
  by (simp add: set_add_def)

lemma fuzzy_pass_subset:
  "set (fuzzy_pass scorer choices cands found) \<subseteq> set found \<union> set choices"
proof (induction cands arbitrary: found)
  case Nil
  then show ?case by simp
next
  case (Cons c cands)
  show ?case
  proof (cases "extractOne scorer c choices")
    case None
    with Cons show ?thesis by simp
  next
    case (Some p)
    obtain m sc where p: "p = (m, sc)" by (cases p)
    from Some p have "m \<in> set choices" by (auto dest: extractOne_mem)
    with Cons[of "set_add m found"] Cons[of found] Some p show ?thesis
      by (auto simp: set_add_set)
  qed
qed

lemma fuzzy_pass_superset: "set found \<subseteq> set (fuzzy_pass scorer choices cands found)"
proof (induction cands arbitrary: found)
  case Nil
  then show ?case by simp
next
  case (Cons c cands)
  from Cons[of "set_add (fst (the (extractOne scorer c choices))) found"] Cons[of found]
  show ?case by (auto simp: set_add_set split: option.splits)
qed

lemma fuzzy_pass_distinct:
  "distinct found \<Longrightarrow> distinct (fuzzy_pass scorer choices cands found)"
  by (induction cands arbitrary: found) (auto simp: set_add_distinct split: option.splits)

lemma extract_skills_Inr:
  assumes "extract_skills e scorer text st = (Inr res, st')"
  obtains master st1 chunks d where
    "load_skills_master e st = (Inr master, st1)"
    "res = sort_key (\<lambda>s. find_str (lower text) s)
             (fuzzy_pass scorer master (candidates_of chunks d (lower text))
               (py_set (filter (\<lambda>s. contains (lower text) s) master)))"
  using assms
  by (auto simp: extract_skills_def Let_def split: sum.splits prod.splits)

section \<open>The claims on the skill matcher\<close>





text \<open>
  Claim C6. A term of the vocabulary that is a substring of the lower-cased text is in
  the list that \<open>extract_skills\<close> returns.
\<close>
theorem extract_skills_exact_complete:
  assumes "extract_skills e scorer text st = (Inr res, st')"
    and "fst (load_skills_master e st) = Inr vocab"
    and "term \<in> set vocab" and "occurs term (lower text)"
  shows "term \<in> set res"
proof -
  from assms(1) obtain master st1 chunks d where
    l: "load_skills_master e st = (Inr master, st1)" and
    res: "res = sort_key (\<lambda>s. find_str (lower text) s)
             (fuzzy_pass scorer master (candidates_of chunks d (lower text))
               (py_set (filter (\<lambda>s. contains (lower text) s) master)))"
    by (rule extract_skills_Inr)
  from l assms(2) have "master = vocab" by simp
  with assms(3,4) have "term \<in> set (py_set (filter (\<lambda>s. contains (lower text) s) master))"
    by (simp add: py_set_def contains_iff occurs_def)
  with fuzzy_pass_superset show ?thesis unfolding res by fastforce
qed

text \<open>The theorem on a run with the built-in vocabulary, for the term \<open>sql\<close>.\<close>

theorem extract_skills_exact_complete_witness:
  "extract_skills (example_env Absent []) exact_scorer ''Skills: Docker, SQL and Python'' init_state
     = (Inr [''docker'', ''sql'', ''python''],
        \<lparr>nlp_cache = Some quiet_nlp, skills_master = Some fallback_skills\<rparr>)
   \<and> fst (load_skills_master (example_env Absent []) init_state) = Inr fallback_skills
   \<and> ''sql'' \<in> set fallback_skills
   \<and> occurs ''sql'' (lower ''Skills: Docker, SQL and Python'')
   \<and> ''sql'' \<in> set [''docker'', ''sql'', ''python'']"
proof -
  have h: "extract_skills (example_env Absent []) exact_scorer ''Skills: Docker, SQL and Python'' init_state
     = (Inr [''docker'', ''sql'', ''python''],
        \<lparr>nlp_cache = Some quiet_nlp, skills_master = Some fallback_skills\<rparr>)"
    by (simp add: eval_defs)
  have l: "fst (load_skills_master (example_env Absent []) init_state) = Inr fallback_skills"
    by (simp add: eval_defs)
  have v: "''sql'' \<in> set fallback_skills" by (simp add: fallback_skills_def)
  have "contains (lower ''Skills: Docker, SQL and Python'') ''sql''" by (simp add: eval_defs)
  then have o: "occurs ''sql'' (lower ''Skills: Docker, SQL and Python'')"
    by (simp add: contains_iff occurs_def)
  from extract_skills_exact_complete[OF h l v o] h l v o show ?thesis by blast
qed

lemma vocab_ok_iff: "vocab_ok v \<longleftrightarrow> distinct v \<and> (\<forall>s\<in>set v. lower s = s)"
  by (simp add: vocab_ok_def list_all_iff)

text \<open>
  Claim C7. In every state the module reaches, each element of the list that
  \<open>extract_skills\<close> returns is a member of the vocabulary, and the list has no entry
  twice, also when its entries are compared without regard to case.
\<close>
theorem extract_skills_in_vocabulary_distinct:
  assumes "reachable e st" and "extract_skills e scorer text st = (Inr res, st')"
  shows "(\<exists>vocab. fst (load_skills_master e st) = Inr vocab \<and> set res \<subseteq> set vocab)
       \<and> distinct (map lower res)"
proof -
  from assms(2) obtain master st1 chunks d where
    l: "load_skills_master e st = (Inr master, st1)" and
    res: "res = sort_key (\<lambda>s. find_str (lower text) s)
             (fuzzy_pass scorer master (candidates_of chunks d (lower text))
               (py_set (filter (\<lambda>s. contains (lower text) s) master)))"
    by (rule extract_skills_Inr)
  have ok: "vocab_ok master" using assms(1) l by (rule load_skills_master_ok)
  have sub: "set res \<subseteq> set master"
    unfolding res using fuzzy_pass_subset[of scorer master] by (fastforce simp: py_set_def)
  have "distinct res" unfolding res by (simp add: fuzzy_pass_distinct py_set_def)
  moreover have "map lower res = res" using sub ok by (auto simp: vocab_ok_iff intro: map_idI)
  ultimately have "distinct (map lower res)" by simp
  with l sub show ?thesis by auto
qed

text \<open>The theorem on a text that names \<open>python\<close> twice, in different case.\<close>

theorem extract_skills_in_vocabulary_distinct_witness:
  "reachable (example_env Absent []) init_state
   \<and> extract_skills (example_env Absent []) exact_scorer ''PYTHON, python, Java and Git'' init_state
     = (Inr [''python'', ''java'', ''git''],
        \<lparr>nlp_cache = Some quiet_nlp, skills_master = Some fallback_skills\<rparr>)
   \<and> fst (load_skills_master (example_env Absent []) init_state) = Inr fallback_skills
   \<and> set [''python'', ''java'', ''git''] \<subseteq> set fallback_skills
   \<and> distinct (map lower [''python'', ''java'', ''git''])"
proof -
  have r: "reachable (example_env Absent []) init_state" by (rule reach_init)
  have h: "extract_skills (example_env Absent []) exact_scorer ''PYTHON, python, Java and Git'' init_state
     = (Inr [''python'', ''java'', ''git''],
        \<lparr>nlp_cache = Some quiet_nlp, skills_master = Some fallback_skills\<rparr>)"
    by (simp add: eval_defs)
  have l: "fst (load_skills_master (example_env Absent []) init_state) = Inr fallback_skills"
    by (simp add: eval_defs)
  from extract_skills_in_vocabulary_distinct[OF r h] r h l show ?thesis by auto
qed

lemma degrees_lower: "\<forall>d\<in>set degrees. lower d = d"
  by (simp add: degrees_def lower_def lower_char_def isupper_def)

lemma extract_education_lower: "s \<in> set (extract_education text) \<Longrightarrow> lower s = s"
proof -
  assume "s \<in> set (extract_education text)"
  then have "s \<in> set degrees" by (simp add: extract_education_def Let_def)
  with degrees_lower show ?thesis by blast
qed

text \<open>
  Claim C10. In every state the module reaches, each string in the list that
  \<open>extract_skills\<close> returns and each string that \<open>extract_education\<close> returns is
  lower-case: \<open>lower\<close> leaves it as it is.
\<close>
theorem skills_and_education_lower_case:
  assumes "reachable e st" and "extract_skills e scorer text st = (Inr res, st')"
  shows "(\<forall>s\<in>set res. lower s = s) \<and> (\<forall>s\<in>set (extract_education text). lower s = s)"
proof -
  from assms(2) obtain master st1 chunks d where
    l: "load_skills_master e st = (Inr master, st1)" and
    res: "res = sort_key (\<lambda>s. find_str (lower text) s)
             (fuzzy_pass scorer master (candidates_of chunks d (lower text))
               (py_set (filter (\<lambda>s. contains (lower text) s) master)))"
    by (rule extract_skills_Inr)
  have ok: "vocab_ok master" using assms(1) l by (rule load_skills_master_ok)
  have sub: "set res \<subseteq> set master"
    unfolding res using fuzzy_pass_subset[of scorer master] by (fastforce simp: py_set_def)
  with ok have "\<forall>s\<in>set res. lower s = s" by (auto simp: vocab_ok_iff)
  then show ?thesis using extract_education_lower by blast
qed

text \<open>The theorem on a text with a degree and two skills in upper and mixed case.\<close>

theorem skills_and_education_lower_case_witness:
  "reachable (example_env Absent []) init_state
   \<and> extract_skills (example_env Absent []) exact_scorer ''B.Tech, knows AWS and React'' init_state
     = (Inr [''aws'', ''react''],
        \<lparr>nlp_cache = Some quiet_nlp, skills_master = Some fallback_skills\<rparr>)
   \<and> extract_education ''B.Tech, knows AWS and React'' = [''b.tech'']
   \<and> map lower [''aws'', ''react''] = [''aws'', ''react'']
   \<and> map lower [''b.tech''] = [''b.tech'']"
proof -
  have r: "reachable (example_env Absent []) init_state" by (rule reach_init)
  have h: "extract_skills (example_env Absent []) exact_scorer ''B.Tech, knows AWS and React'' init_state
     = (Inr [''aws'', ''react''],
        \<lparr>nlp_cache = Some quiet_nlp, skills_master = Some fallback_skills\<rparr>)"
    by (simp add: eval_defs)
  have ed: "extract_education ''B.Tech, knows AWS and React'' = [''b.tech'']"
    by (simp add: extract_education_def degrees_def eval_defs)
  from skills_and_education_lower_case[OF r h] r h ed show ?thesis by simp
qed

section \<open>Facts on the matcher of regular expressions\<close>

lemma take_takeWhile_all:
  "k \<le> length (takeWhile p s) \<Longrightarrow> list_all p (take k s)"
proof (induction s arbitrary: k)
  case Nil
  then show ?case by simp
next
  case (Cons c s)
  then show ?case by (cases k) (auto split: if_splits)
qed

lemma ms_Rep_elim:
  assumes "(g, m, r) \<in> set (ms (Rep p lo hi) s)"
  shows "g = [] \<and> s = m @ r \<and> list_all p m \<and> lo \<le> length m
         \<and> (case hi of None \<Rightarrow> True | Some h \<Rightarrow> length m \<le> h)"
proof -
  from assms obtain k where k: "g = []" "m = take k s" "r = drop k s" "lo \<le> k"
    "k \<le> length (takeWhile p s)" "(case hi of None \<Rightarrow> True | Some h \<Rightarrow> k \<le> h)"
    by (auto simp: rep_counts_def Let_def split: option.splits)
  have "length (takeWhile p s) \<le> length s" by (rule length_takeWhile_le)
  with k(5) have len: "length m = k" using k(2) by simp
  from take_takeWhile_all[OF k(5)] k(2) have "list_all p m" by simp
  moreover have "s = m @ r" using k(2,3) by simp
  moreover have "case hi of None \<Rightarrow> True | Some h \<Rightarrow> length m \<le> h"
    using k(6) len by (simp split: option.splits)
  ultimately show ?thesis using k(1,4) len by simp
qed

lemma ms_Seq_elim:
  assumes "(g, m, r) \<in> set (ms (Seq a b) s)"
  obtains g1 m1 r1 g2 m2 where "(g1, m1, r1) \<in> set (ms a s)" "(g2, m2, r) \<in> set (ms b r1)"
    "g = g1 @ g2" "m = m1 @ m2"
  using assms by auto

lemma ms_Grp_elim:
  assumes "(g, m, r) \<in> set (ms (Grp a) s)"
  obtains g' where "(g', m, r) \<in> set (ms a s)" "g = g' @ [m]"
  using assms by auto

lemma match_at_Some:
  "match_at r s = Some gs \<Longrightarrow> \<exists>g m rest. (g, m, rest) \<in> set (ms r s) \<and> gs = m # g"
  by (auto simp: match_at_def split: list.splits)

lemma finditer_head:
  "finditer r s = g # gs \<Longrightarrow> \<exists>pre suf. s = pre @ suf \<and> match_at r suf = Some g"
proof (induction r s rule: finditer.induct)
  case (1 r)
  then show ?case by (auto split: option.splits)
next
  case (2 r c s)
  show ?case
  proof (cases "match_at r (c # s)")
    case None
    with 2 obtain pre suf where "s = pre @ suf" "match_at r suf = Some g" by auto
    then have "c # s = (c # pre) @ suf \<and> match_at r suf = Some g" by simp
    then show ?thesis by blast
  next
    case (Some a)
    with 2(3) have "a = g" by simp
    with Some have "c # s = [] @ (c # s) \<and> match_at r (c # s) = Some g" by simp
    then show ?thesis by blast
  qed
qed

section \<open>The claim on the phone number\<close>

lemma ms_PHONE_RE:
  assumes "(g, m, rest) \<in> set (ms PHONE_RE s)"
  shows "g = [m] \<and> s = m @ rest \<and>
         (\<exists>pl d1 seps d2. m = pl @ [d1] @ seps @ [d2] \<and> (pl = [] \<or> pl = ''+'')
            \<and> isdigit d1 \<and> isdigit d2 \<and> 7 \<le> length seps \<and> list_all phone_sep seps)"
proof -
  from assms obtain g' where 1: "(g', m, rest) \<in> set (ms (Seq (Rep (\<lambda>c. c = CHR ''+'') 0 (Some 1))
           (Seq (Rep isdigit 1 (Some 1))
             (Seq (Rep phone_sep 7 None) (Rep isdigit 1 (Some 1))))) s)" and g: "g = g' @ [m]"
    unfolding PHONE_RE_def by (rule ms_Grp_elim)
  from 1 obtain gA mA rA g1 m1 where A: "(gA, mA, rA) \<in> set (ms (Rep (\<lambda>c. c = CHR ''+'') 0 (Some 1)) s)"
    and 2: "(g1, m1, rest) \<in> set (ms (Seq (Rep isdigit 1 (Some 1))
             (Seq (Rep phone_sep 7 None) (Rep isdigit 1 (Some 1)))) rA)"
    and e1: "g' = gA @ g1" "m = mA @ m1"
    by (rule ms_Seq_elim)
  from 2 obtain gB mB rB g2 m2 where B: "(gB, mB, rB) \<in> set (ms (Rep isdigit 1 (Some 1)) rA)"
    and 3: "(g2, m2, rest) \<in> set (ms (Seq (Rep phone_sep 7 None) (Rep isdigit 1 (Some 1))) rB)"
    and e2: "g1 = gB @ g2" "m1 = mB @ m2"
    by (rule ms_Seq_elim)
  from 3 obtain gC mC rC gD mD where C: "(gC, mC, rC) \<in> set (ms (Rep phone_sep 7 None) rB)"
    and D: "(gD, mD, rest) \<in> set (ms (Rep isdigit 1 (Some 1)) rC)"
    and e3: "g2 = gC @ gD" "m2 = mC @ mD"
    by (rule ms_Seq_elim)
  note a = ms_Rep_elim[OF A] and b = ms_Rep_elim[OF B] and c = ms_Rep_elim[OF C]
    and d = ms_Rep_elim[OF D]
  from a have pl: "mA = [] \<or> mA = ''+''" by (cases mA) auto
  from b obtain d1 where d1: "mB = [d1]" "isdigit d1" by (cases mB) auto
  from d obtain d2 where d2: "mD = [d2]" "isdigit d2" by (cases mD) auto
  have "g = [m]" using g e1 e2 e3 a b c d by simp
  moreover have "s = m @ rest" using e1 e2 e3 a b c d by simp
  moreover have "m = mA @ [d1] @ mC @ [d2]" using e1 e2 e3 d1 d2 by simp
  ultimately show ?thesis using pl d1 d2 c by auto
qed

lemma count_digits_append: "count_digits (a @ b) = count_digits a + count_digits b"
  by (simp add: count_digits_def)

lemma isdigit_phone_sep: "isdigit c \<Longrightarrow> phone_sep c"
  by (simp add: phone_sep_def)

text \<open>
  Claim C3, as amended. A phone value that \<open>extract_contact_info\<close> returns is a
  substring of the text; behind an optional leading \<open>+\<close> it has at least 9 characters,
  begins and ends with a digit and consists of digits, \<open>-\<close>, white space and
  parentheses. So it contains at least 2 digits.
\<close>
theorem phone_shape:
  assumes "phone (extract_contact_info text) = Some p"
  shows "occurs p text
       \<and> (\<exists>q. (p = q \<or> p = CHR ''+'' # q) \<and> 9 \<le> length q \<and> isdigit (hd q)
               \<and> isdigit (last q) \<and> list_all phone_sep q)
       \<and> 2 \<le> count_digits p"
proof -
  from assms obtain ps where "findall PHONE_RE text = p # ps"
    by (auto simp: extract_contact_info_def Let_def split: list.splits)
  then obtain gs gss where f: "finditer PHONE_RE text = gs # gss"
    and p: "p = (if length gs = 1 then mgroup 0 gs else mgroup 1 gs)"
    by (auto simp: findall_def)
  from finditer_head[OF f] obtain pre suf where t: "text = pre @ suf"
    and ma: "match_at PHONE_RE suf = Some gs" by blast
  from match_at_Some[OF ma] obtain g m rest where
    in_ms: "(g, m, rest) \<in> set (ms PHONE_RE suf)" and gs: "gs = m # g" by blast
  from ms_PHONE_RE[OF in_ms] obtain pl d1 seps d2 where
    g: "g = [m]" and suf: "suf = m @ rest" and m: "m = pl @ [d1] @ seps @ [d2]"
    and pl: "pl = [] \<or> pl = ''+''" and dg: "isdigit d1" "isdigit d2"
    and seps: "7 \<le> length seps" "list_all phone_sep seps"
    by blast
  from p gs g have pm: "p = m" by (simp add: mgroup_def)
  have "text = pre @ p @ rest" using t suf pm by simp
  then have occ: "occurs p text" unfolding occurs_def by blast
  let ?q = "[d1] @ seps @ [d2]"
  have q: "(p = ?q \<or> p = CHR ''+'' # ?q)" using pm m pl by auto
  have q2: "9 \<le> length ?q \<and> isdigit (hd ?q) \<and> isdigit (last ?q) \<and> list_all phone_sep ?q"
    using dg seps by (simp add: isdigit_phone_sep)
  have "count_digits p = count_digits pl + count_digits [d1] + count_digits seps + count_digits [d2]"
    using pm m by (simp add: count_digits_def)
  then have cd: "2 \<le> count_digits p" using dg by (simp add: count_digits_def)
  from occ q q2 cd show ?thesis by blast
qed

text \<open>The theorem on a text with a phone number.\<close>

theorem phone_shape_witness:
  "phone (extract_contact_info ''Call +91 (080) 2345-6789'') = Some ''+91 (080) 2345-6789''
   \<and> occurs ''+91 (080) 2345-6789'' ''Call +91 (080) 2345-6789''
   \<and> 2 \<le> count_digits ''+91 (080) 2345-6789''"
proof -
  have h: "phone (extract_contact_info ''Call +91 (080) 2345-6789'') = Some ''+91 (080) 2345-6789''"
    by (simp add: eval_re)
  from phone_shape[OF h] h show ?thesis by blast
qed

text \<open>
  Claim C3 as stated fails: the pattern asks for 9 characters, of which only the first
  and the last must be digits. On \<open>1-------2\<close> the phone value has 2 digits, not 8.
\<close>

theorem phone_few_digits_counterexample:
  "phone (extract_contact_info ''1-------2'') = Some ''1-------2''
   \<and> count_digits ''1-------2'' = 2"
  by (simp add: eval_re)

section \<open>The claim on the vocabulary loader\<close>

text \<open>
  Claim C1 on the code. The generator tests \<open>if s\<close> before it strips the entry, so an
  entry of white space only passes the test and enters the vocabulary as the empty
  string: for the skills file \<open>["Python", "   "]\<close> the loader returns \<open>python\<close> and
  the empty string.
\<close>

theorem skills_master_blank_entry:
  "fst (load_skills_master (example_env (Parsed (JArr [JStr ''Python'', JStr ''   ''])) [])
          init_state)
     = Inr [''python'', []]"
  by (simp add: eval_defs)

section \<open>The claims on text extraction and on the assembly of the profile\<close>





















text \<open>
  A file whose text has a code point above U+00FF (here U+0132) is outside the model.
\<close>

lemma parse_resume_outside_model:
  "parse_resume (example_env Absent [(''cv.txt'', File ([0xC4, 0xB2, 0x20] @ ascii_bytes ''years''))])
      ''cv.txt'' init_state = None"
  by (simp add: parse_resume_def str_of_def eval_text ascii_bytes_def)

text \<open>
  The sample of the test of the repository (\<open>test_parse_sample_txt\<close>): the name is found
  by the rule for the first line, the years by the primary pattern, and the three skills
  come in the order in which they occur.
\<close>

lemma parse_resume_sample:
  "parse_resume (example_env Absent [(''sample.txt'', File (ascii_bytes
      (''John Doe'' @ [CHR 0x0A] @ ''Email: john.doe@example.com'' @ [CHR 0x0A]
       @ ''Experience: 3 years'' @ [CHR 0x0A] @ ''Skills: Python, SQL, Docker'')))])
     ''sample.txt'' init_state
   = Some (Inr \<lparr>phone = None, email = Some ''john.doe@example.com'',
        raw_text = map of_char (''John Doe'' @ [CHR 0x0A] @ ''Email: john.doe@example.com''
          @ [CHR 0x0A] @ ''Experience: 3 years'' @ [CHR 0x0A] @ ''Skills: Python, SQL, Docker''),
        name = Some ''John Doe'', experience_years = Some 3,
        skills = [''python'', ''sql'', ''docker''], education = []\<rparr>,
      \<lparr>nlp_cache = Some quiet_nlp, skills_master = Some fallback_skills\<rparr>)"
  by (simp add: eval_parse eval_text eval_re eval_defs)

end
